theory Spec2Isabelle
  imports Complex_Main "HOL-Library.Sublist" "HOL-Library.Char_ord" "HOL-Library.List_Lexorder"
begin

section \<open>Python strings\<close>

text \<open>
  Strings are lists of characters. The string methods the service calls
  (\<^verbatim>\<open>lower\<close>, \<^verbatim>\<open>title\<close>, \<^verbatim>\<open>replace\<close>, \<^verbatim>\<open>strip\<close>, \<^verbatim>\<open>split\<close>, \<^verbatim>\<open>in\<close>) are modelled on
  ASCII text: a letter is one of A-Z or a-z, and every other character has no case.
\<close>

definition is_upper :: "char \<Rightarrow> bool" where
  "is_upper c = (65 \<le> (of_char c :: nat) \<and> (of_char c :: nat) \<le> 90)"

definition is_lower :: "char \<Rightarrow> bool" where
  "is_lower c = (97 \<le> (of_char c :: nat) \<and> (of_char c :: nat) \<le> 122)"

definition lower_char :: "char \<Rightarrow> char" where
  "lower_char c = (if is_upper c then char_of ((of_char c :: nat) + 32) else c)"

definition upper_char :: "char \<Rightarrow> char" where
  "upper_char c = (if is_lower c then char_of ((of_char c :: nat) - 32) else c)"

text \<open>\<^verbatim>\<open>s.lower()\<close>\<close>

definition lower :: "string \<Rightarrow> string" where
  "lower s = map lower_char s"

text \<open>
  \<^verbatim>\<open>s.title()\<close>: a cased character is upper-cased when the character before it is
  not cased, and lower-cased otherwise. The flag is Python's \<^verbatim>\<open>previous_is_cased\<close>.
\<close>

fun title_from :: "bool \<Rightarrow> string \<Rightarrow> string" where
  "title_from prev [] = []"
| "title_from prev (c # cs) =
     (if is_upper c \<or> is_lower c
      then (if prev then lower_char c else upper_char c) # title_from True cs
      else c # title_from False cs)"

definition title :: "string \<Rightarrow> string" where
  "title s = title_from False s"






section \<open>Alert text: \<^verbatim>\<open>generate_weather_alert\<close> and its template fallback\<close>

text \<open>
  \<^verbatim>\<open>alert_data\<close> is a dictionary; the three keys read with \<^verbatim>\<open>.get(key, default)\<close> are
  optional (\<open>None\<close>: the key is missing). Their values are strings.
\<close>

record alert_data =
  ad_alert_type :: "string option"
  ad_severity :: "string option"
  ad_location :: "string option"
  ad_conditions :: "(string \<times> real) list"
  ad_risk_level :: real

record alert_content =
  ac_title :: string
  ac_description :: string
  ac_instructions :: string
  ac_duration :: string

definition get_default :: "'a option \<Rightarrow> 'a \<Rightarrow> 'a" where
  "get_default v d = (case v of None \<Rightarrow> d | Some x \<Rightarrow> x)"

definition flood_template :: "string \<Rightarrow> string \<Rightarrow> alert_content" where
  "flood_template severity location =
     \<lparr> ac_title = ''Flood '' @ title severity @ '' Alert for '' @ location,
       ac_description = ''Heavy rainfall and rising water levels pose a flood risk in '' @ location
          @ ''. Monitor local conditions and be prepared to evacuate if necessary.'',
       ac_instructions = ''Move to higher ground, avoid flooded roads, and stay informed through official channels.'',
       ac_duration = ''Alert remains in effect until water levels recede.'' \<rparr>"

definition drought_template :: "string \<Rightarrow> string \<Rightarrow> alert_content" where
  "drought_template severity location =
     \<lparr> ac_title = ''Drought '' @ title severity @ '' Alert for '' @ location,
       ac_description = ''Extended dry conditions and high temperatures are creating drought conditions in ''
          @ location @ ''. Water conservation measures are recommended.'',
       ac_instructions = ''Conserve water, avoid outdoor burning, and monitor local water restrictions.'',
       ac_duration = ''Alert continues until significant precipitation occurs.'' \<rparr>"

definition storm_template :: "string \<Rightarrow> string \<Rightarrow> alert_content" where
  "storm_template severity location =
     \<lparr> ac_title = ''Severe Storm '' @ title severity @ '' Alert for '' @ location,
       ac_description = ''Dangerous weather conditions including high winds and heavy precipitation are expected in ''
          @ location @ ''.'',
       ac_instructions = ''Secure outdoor objects, avoid travel if possible, and stay indoors during the storm.'',
       ac_duration = ''Storm conditions expected for the next 6-12 hours.'' \<rparr>"

text \<open>
  \<^verbatim>\<open>_generate_template_alert\<close>. The dictionary \<^verbatim>\<open>templates\<close> has the keys flood, drought
  and storm; \<^verbatim>\<open>templates.get(alert_type, templates["storm"])\<close> falls back to the storm entry.
\<close>

definition generate_template_alert :: "alert_data \<Rightarrow> alert_content" where
  "generate_template_alert d =
     (let alert_type = lower (get_default (ad_alert_type d) ''weather'');
          severity = lower (get_default (ad_severity d) ''medium'');
          location = get_default (ad_location d) ''the area''
      in if alert_type = ''flood'' then flood_template severity location
         else if alert_type = ''drought'' then drought_template severity location
         else if alert_type = ''storm'' then storm_template severity location
         else storm_template severity location)"





section \<open>The alert sweep: \<^verbatim>\<open>_check_risk_thresholds\<close>\<close>






section \<open>Measurements and the data frame\<close>

text \<open>
  A measurement is the dictionary handed to the service. Of its keys the service reads
  \<^verbatim>\<open>location\<close>, \<^verbatim>\<open>timestamp\<close> and the five numeric fields. A key may be missing (\<open>None\<close>);
  the value of a numeric key is a number (\<open>Some (Some v)\<close>) or null (\<open>Some None\<close>).

  \<^verbatim>\<open>pd.DataFrame(weather_data)\<close> has one row per measurement and one column per key that
  occurs in some measurement. A cell is \<open>Some v\<close> for a number and \<open>None\<close> for NaN, the
  cell of a null reading and of a row without the key. Numbers are real numbers: the
  rounding of floating point is not modelled. The reductions and comparisons of pandas
  treat the nulls of a column that holds nothing but explicit nulls the same way; Python
  arithmetic on the cells of such a column is not modelled apart from NaN arithmetic.
\<close>

datatype field = Temperature | Humidity | Pressure | Wind_speed | Precipitation

record measurement =
  m_location :: "string option"
  m_timestamp :: "string option"
  m_readings :: "field \<rightharpoonup> real option"



text \<open>\<^verbatim>\<open>col in df.columns\<close>\<close>

definition has_column :: "measurement list \<Rightarrow> field \<Rightarrow> bool" where
  "has_column df col = list_ex (\<lambda>m. m_readings m col \<noteq> None) df"

definition cell :: "measurement \<Rightarrow> field \<Rightarrow> real option" where
  "cell m col = (case m_readings m col of None \<Rightarrow> None | Some v \<Rightarrow> v)"

text \<open>\<^verbatim>\<open>df[col]\<close>\<close>

definition column :: "measurement list \<Rightarrow> field \<Rightarrow> real option list" where
  "column df col = map (\<lambda>m. cell m col) df"

text \<open>\<^verbatim>\<open>.tail(n)\<close>: the last \<open>n\<close> rows, or all of them when there are fewer.\<close>

definition tail :: "nat \<Rightarrow> 'a list \<Rightarrow> 'a list" where
  "tail n xs = drop (length xs - n) xs"

text \<open>The reductions of pandas skip NaN.\<close>

fun dropna :: "real option list \<Rightarrow> real list" where
  "dropna [] = []"
| "dropna (None # xs) = dropna xs"
| "dropna (Some v # xs) = v # dropna xs"


definition list_max :: "'a::linorder list \<Rightarrow> 'a option" where
  "list_max xs = (case xs of [] \<Rightarrow> None | x # rest \<Rightarrow> Some (fold max rest x))"

definition series_sum :: "real option list \<Rightarrow> real" where
  "series_sum xs = sum_list (dropna xs)"

definition series_mean :: "real option list \<Rightarrow> real option" where
  "series_mean xs =
     (if dropna xs = [] then None
      else Some (sum_list (dropna xs) / real (length (dropna xs))))"


definition series_max :: "real option list \<Rightarrow> real option" where
  "series_max xs = list_max (dropna xs)"




text \<open>Arithmetic and comparison of floats that may be NaN.\<close>

definition fsub :: "real option \<Rightarrow> real option \<Rightarrow> real option" where
  "fsub a b = (case (a, b) of (Some x, Some y) \<Rightarrow> Some (x - y) | _ \<Rightarrow> None)"


definition fdiv :: "real option \<Rightarrow> real \<Rightarrow> real option" where
  "fdiv a c = map_option (\<lambda>x. x / c) a"

definition fgt :: "real option \<Rightarrow> real \<Rightarrow> bool" where
  "fgt a c = (case a of None \<Rightarrow> False | Some x \<Rightarrow> x > c)"

definition flt :: "real option \<Rightarrow> real \<Rightarrow> bool" where
  "flt a c = (case a of None \<Rightarrow> False | Some x \<Rightarrow> x < c)"

text \<open>
  Python's \<^verbatim>\<open>min(1.0, x)\<close> is \<open>x\<close> when \<open>x < 1.0\<close> and \<open>1.0\<close> otherwise, so it is
  \<open>1.0\<close> for NaN; \<^verbatim>\<open>max(0.0, x)\<close> is \<open>x\<close> when \<open>x > 0.0\<close> and \<open>0.0\<close> otherwise.
\<close>

definition min_one :: "real option \<Rightarrow> real" where
  "min_one x = (if flt x 1 then get_default x 1 else 1)"

definition max_zero :: "real option \<Rightarrow> real" where
  "max_zero x = (if fgt x 0 then get_default x 0 else 0)"

section \<open>Risk assessment: \<^verbatim>\<open>_assess_risks\<close>\<close>

text \<open>The thresholds of \<^verbatim>\<open>_initialize_prediction_models\<close> that the assessment reads.\<close>

definition flood_threshold_precipitation :: real where
  "flood_threshold_precipitation = 50"

definition drought_threshold_precipitation :: real where
  "drought_threshold_precipitation = 5"

definition drought_threshold_temperature :: real where
  "drought_threshold_temperature = 35"

definition storm_threshold_wind_speed :: real where
  "storm_threshold_wind_speed = 60"

definition storm_threshold_pressure_drop :: real where
  "storm_threshold_pressure_drop = 20"

definition heat_threshold :: real where
  "heat_threshold = 40"

definition cold_threshold :: real where
  "cold_threshold = - 20"

record risks =
  flood_risk :: real
  drought_risk :: real
  storm_risk :: real
  extreme_temperature_risk :: real

definition flood_score :: "measurement list \<Rightarrow> real" where
  "flood_score df =
     (let recent_precip = series_sum (tail 24 (column df Precipitation))
      in min_one (Some (recent_precip / flood_threshold_precipitation)))"

definition drought_score :: "measurement list \<Rightarrow> real" where
  "drought_score df =
     (let avg_precip = series_mean (tail 720 (column df Precipitation));
          avg_temp = series_mean (tail 720 (column df Temperature));
          precip_risk = 1 - min_one (fdiv avg_precip drought_threshold_precipitation);
          temp_risk = min_one (Some (max_zero (fsub avg_temp (Some 25))
                                       / (drought_threshold_temperature - 25)))
      in (precip_risk + temp_risk) / 2)"

text \<open>
  \<^verbatim>\<open>.iloc[0]\<close> and \<^verbatim>\<open>.iloc[-1]\<close> of the last three pressure cells. The frame has a row
  when this is computed, so the empty case does not arise.
\<close>

definition storm_score :: "measurement list \<Rightarrow> real" where
  "storm_score df =
     (let max_wind = series_max (tail 6 (column df Wind_speed));
          pressure_drop = (case tail 3 (column df Pressure) of
                             [] \<Rightarrow> None
                           | p # ps \<Rightarrow> fsub p (last (p # ps)));
          wind_risk = min_one (fdiv max_wind storm_threshold_wind_speed);
          pressure_risk = min_one (Some (max_zero pressure_drop / storm_threshold_pressure_drop))
      in max wind_risk pressure_risk)"

definition extreme_temperature_score :: "measurement list \<Rightarrow> real" where
  "extreme_temperature_score df =
     (let recent_temps = tail 6 (column df Temperature);
          heat_risk = real (length (filter (\<lambda>t. fgt t heat_threshold) recent_temps))
                        / real (length recent_temps);
          cold_risk = real (length (filter (\<lambda>t. flt t cold_threshold) recent_temps))
                        / real (length recent_temps)
      in max heat_risk cold_risk)"

definition assess_risks :: "measurement list \<Rightarrow> risks" where
  "assess_risks df =
     (if length df = 0
      then \<lparr> flood_risk = 0, drought_risk = 0, storm_risk = 0, extreme_temperature_risk = 0 \<rparr>
      else
        \<lparr> flood_risk = (if has_column df Precipitation then flood_score df else 0),
          drought_risk = (if has_column df Precipitation \<and> has_column df Temperature
                          then drought_score df else 0),
          storm_risk = (if has_column df Wind_speed \<and> has_column df Pressure
                        then storm_score df else 0),
          extreme_temperature_risk = (if has_column df Temperature
                                      then extreme_temperature_score df else 0) \<rparr>)"

text \<open>\<^verbatim>\<open>risk_assessment.items()\<close>: the four entries in the order the dictionary was built.\<close>

definition risk_items :: "risks \<Rightarrow> (string \<times> real) list" where
  "risk_items r =
     [(''flood_risk'', flood_risk r),
      (''drought_risk'', drought_risk r),
      (''storm_risk'', storm_risk r),
      (''extreme_temperature_risk'', extreme_temperature_risk r)]"

section \<open>Pattern analysis: \<^verbatim>\<open>analyze_weather_patterns\<close>\<close>

record field_statistics =
  st_mean :: "real option"
  st_median :: "real option"
  st_std :: "real option"
  st_min :: "real option"
  st_max :: "real option"



record anomaly =
  an_type :: string
  an_value :: real
  an_expected_range :: "real \<times> real"
  an_severity :: string
  an_timestamp :: "string option"
  an_location :: "string option"




text \<open>
  \<^verbatim>\<open>_analyze_trends\<close>. \<^verbatim>\<open>df.sort_values('timestamp')\<close> orders the rows by time stamp and
  puts the rows without one last; rows with equal time stamps keep their order here.
  The least-squares fit is numpy's: \<open>polyfit ys\<close> stands for
  \<^verbatim>\<open>np.polyfit(range(len(ys)), ys, 1)[0]\<close>, the slope (possibly NaN), or the exception it
  raised.
\<close>

datatype py_error = LinAlgError | TypeError | ValueError

record trend =
  tr_direction :: string
  tr_rate :: "real option"
  tr_significance :: string




text \<open>
  The summary block: record count, first and last time stamp, and the distinct values of
  the location column in the order of their first occurrence (\<open>None\<close> for the NaN of a
  row without location).
\<close>

record summary =
  sm_total_records :: nat
  sm_date_start :: "string option"
  sm_date_end :: "string option"
  sm_locations :: "string option list"



record analysis =
  a_summary :: summary
  a_statistics :: "field \<rightharpoonup> field_statistics"
  a_trends :: "field \<rightharpoonup> trend"
  a_anomalies :: "anomaly list"
  a_risk_assessment :: risks

text \<open>
  The two shapes of the returned dictionary: the one with the single key \<^verbatim>\<open>error\<close>, and
  the full analysis.
\<close>

datatype analysis_result = Analysis_Error string | Analysis analysis





definition result_risk_items :: "analysis_result \<Rightarrow> (string \<times> real) list" where
  "result_risk_items r =
     (case r of Analysis_Error _ \<Rightarrow> [] | Analysis a \<Rightarrow> risk_items (a_risk_assessment a))"

section \<open>Prediction: \<^verbatim>\<open>generate_weather_prediction\<close>\<close>








section \<open>Alert text when the language model fails\<close>

lemma lower_FLOOD: "lower ''FLOOD'' = ''flood''"
  by code_simp

lemma lower_high: "lower ''high'' = ''high''"
  by code_simp

lemma title_high: "title ''high'' = ''High''"
  by code_simp

lemma lower_extreme_temperature: "lower ''extreme_temperature'' = ''extreme_temperature''"
  by code_simp





text \<open>
  C10 as stated fails: the alert type is lower-cased before the template is looked up,
  so the alert type \<^verbatim>\<open>FLOOD\<close>, which is none of the strings flood, drought and storm,
  gets the flood template and not the storm template.
\<close>

theorem template_upper_case_counterexample:
  "''FLOOD'' \<notin> {''flood'', ''drought'', ''storm''}
   \<and> ac_title (generate_template_alert
        \<lparr>ad_alert_type = Some ''FLOOD'', ad_severity = Some ''high'',
          ad_location = Some ''Houston'', ad_conditions = [], ad_risk_level = 0.9\<rparr>)
       = ''Flood High Alert for Houston''"
  by (simp add: generate_template_alert_def get_default_def lower_FLOOD lower_high title_high
        flood_template_def)

text \<open>
  C10, amended. When the lower-cased alert type (\<^verbatim>\<open>weather\<close> when the key is missing) is
  none of flood, drought and storm, the fallback is the storm template: the title is
  \<^verbatim>\<open>Severe Storm <Severity> Alert for <location>\<close>, whatever the hazard, and title,
  description, instructions and duration are not empty.
\<close>

theorem template_default_is_storm:
  "lower (get_default (ad_alert_type d) ''weather'') \<notin> {''flood'', ''drought'', ''storm''} \<Longrightarrow>
     generate_template_alert d =
       storm_template (lower (get_default (ad_severity d) ''medium''))
                      (get_default (ad_location d) ''the area'')
     \<and> ac_title (generate_template_alert d) =
         ''Severe Storm '' @ title (lower (get_default (ad_severity d) ''medium''))
           @ '' Alert for '' @ get_default (ad_location d) ''the area''
     \<and> ac_title (generate_template_alert d) \<noteq> []
     \<and> ac_description (generate_template_alert d) \<noteq> []
     \<and> ac_instructions (generate_template_alert d) \<noteq> []
     \<and> ac_duration (generate_template_alert d) \<noteq> []"
  by (simp add: generate_template_alert_def Let_def storm_template_def)

text \<open>
  C10, amended, at the alert type \<^verbatim>\<open>extreme_temperature\<close>: the alert raised for extreme
  temperature is titled as a severe storm.
\<close>

theorem template_default_is_storm_witness:
  "lower (get_default (Some ''extreme_temperature'') ''weather'')
     \<notin> {''flood'', ''drought'', ''storm''}
   \<and> ac_title (generate_template_alert
        \<lparr>ad_alert_type = Some ''extreme_temperature'', ad_severity = Some ''high'',
          ad_location = Some ''Multiple Areas'', ad_conditions = [], ad_risk_level = 0.9\<rparr>)
       = ''Severe Storm High Alert for Multiple Areas''"
proof -
  have h: "lower (get_default (ad_alert_type
        \<lparr>ad_alert_type = Some ''extreme_temperature'', ad_severity = Some ''high'',
          ad_location = Some ''Multiple Areas'', ad_conditions = [], ad_risk_level = 0.9\<rparr>)
        ''weather'') \<notin> {''flood'', ''drought'', ''storm''}"
    by (simp add: get_default_def lower_extreme_temperature)
  show ?thesis
    using h template_default_is_storm [OF h]
    by (simp add: get_default_def lower_high title_high lower_extreme_temperature
          storm_template_def)
qed

section \<open>The empty batch\<close>


section \<open>The alert sweep stores an alert for every breach\<close>











section \<open>Storm risk and the most recent wind speed\<close>

lemma tail_snoc: "tail (Suc n) (xs @ [x]) = tail n xs @ [x]"
  by (simp add: tail_def)

lemma dropna_append: "dropna (xs @ ys) = dropna xs @ dropna ys"
  by (induction xs rule: dropna.induct) simp_all

lemma list_max_snoc:
  "list_max (xs @ [x]) = Some (case list_max xs of None \<Rightarrow> x | Some m \<Rightarrow> max m x)"
  by (cases xs) (simp_all add: list_max_def max.commute)

lemma series_max_snoc:
  "series_max (xs @ [Some x]) = Some (case series_max xs of None \<Rightarrow> x | Some m \<Rightarrow> max m x)"
  by (simp add: series_max_def dropna_append list_max_snoc)

lemma min_one_mono: "a \<le> b \<Longrightarrow> min_one (Some a) \<le> min_one (Some b)"
  by (simp add: min_one_def flt_def get_default_def)

lemma column_snoc: "column (ms @ [m]) col = column ms col @ [cell m col]"
  by (simp add: column_def)

lemma has_column_snoc:
  "has_column (ms @ [m]) col \<longleftrightarrow> has_column ms col \<or> m_readings m col \<noteq> None"
  by (auto simp: has_column_def list_ex_iff)

text \<open>
  C8. Two batches that differ only in the wind speed of the last measurement, 10 in the
  first and 100 in the second: the storm risk of the second is at least that of the first.
\<close>

theorem storm_recency:
  "storm_risk (assess_risks (ms @ [m\<lparr>m_readings := (m_readings m)(Wind_speed \<mapsto> Some 10)\<rparr>]))
     \<le> storm_risk (assess_risks (ms @ [m\<lparr>m_readings := (m_readings m)(Wind_speed \<mapsto> Some 100)\<rparr>]))"
proof -
  let ?m1 = "m\<lparr>m_readings := (m_readings m)(Wind_speed \<mapsto> Some 10)\<rparr>"
  let ?m2 = "m\<lparr>m_readings := (m_readings m)(Wind_speed \<mapsto> Some 100)\<rparr>"
  have p: "column (ms @ [?m1]) Pressure = column (ms @ [?m2]) Pressure"
    by (simp add: column_def cell_def)
  have hp: "has_column (ms @ [?m1]) Pressure = has_column (ms @ [?m2]) Pressure"
    by (simp add: has_column_snoc)
  have w1: "tail 6 (column (ms @ [?m1]) Wind_speed) = tail 5 (column ms Wind_speed) @ [Some 10]"
    using tail_snoc [of 5 "column ms Wind_speed" "Some 10"]
    by (simp add: column_snoc cell_def eval_nat_numeral)
  have w2: "tail 6 (column (ms @ [?m2]) Wind_speed) = tail 5 (column ms Wind_speed) @ [Some 100]"
    using tail_snoc [of 5 "column ms Wind_speed" "Some 100"]
    by (simp add: column_snoc cell_def eval_nat_numeral)
  obtain a b where
    a: "series_max (tail 6 (column (ms @ [?m1]) Wind_speed)) = Some a" and
    b: "series_max (tail 6 (column (ms @ [?m2]) Wind_speed)) = Some b" and
    ab: "a \<le> b"
    unfolding w1 w2 series_max_snoc
    by (cases "series_max (tail 5 (column ms Wind_speed))") auto
  have "min_one (fdiv (Some a) storm_threshold_wind_speed)
          \<le> min_one (fdiv (Some b) storm_threshold_wind_speed)"
    using ab by (simp add: fdiv_def storm_threshold_wind_speed_def min_one_mono divide_right_mono)
  then have "storm_score (ms @ [?m1]) \<le> storm_score (ms @ [?m2])"
    unfolding storm_score_def Let_def a b p
    by (rule max.mono) simp
  then show ?thesis
    by (simp add: assess_risks_def has_column_snoc)
qed

section \<open>The predicted value\<close>









section \<open>The confidence of a prediction\<close>










section \<open>The range of the risk scores\<close>

lemma min_one_le_one: "min_one x \<le> 1"
  by (cases x) (simp_all add: min_one_def flt_def get_default_def)

lemma min_one_nonneg: "0 \<le> v \<Longrightarrow> 0 \<le> min_one (Some v)"
  by (simp add: min_one_def flt_def get_default_def)

lemma max_zero_nonneg: "0 \<le> max_zero x"
  by (cases x) (simp_all add: max_zero_def fgt_def get_default_def)

lemma storm_score_range: "0 \<le> storm_score df \<and> storm_score df \<le> 1"
proof -
  have "0 \<le> min_one (Some (max_zero p / storm_threshold_pressure_drop))" for p
    by (rule min_one_nonneg) (simp add: max_zero_nonneg storm_threshold_pressure_drop_def)
  then show ?thesis
    by (simp add: storm_score_def Let_def min_one_le_one le_max_iff_disj)
qed

lemma fraction_range:
  "0 \<le> real (length (filter P xs)) / real (length xs)
   \<and> real (length (filter P xs)) / real (length xs) \<le> 1"
  by (cases "xs = []") (simp_all add: divide_le_eq)

lemma extreme_temperature_score_range:
  "0 \<le> extreme_temperature_score df \<and> extreme_temperature_score df \<le> 1"
  using fraction_range [of "\<lambda>t. fgt t heat_threshold" "tail 6 (column df Temperature)"]
    fraction_range [of "\<lambda>t. flt t cold_threshold" "tail 6 (column df Temperature)"]
  by (simp add: extreme_temperature_score_def Let_def le_max_iff_disj)

lemma set_dropna: "v \<in> set (dropna xs) \<longleftrightarrow> Some v \<in> set xs"
  by (induction xs rule: dropna.induct) auto

lemma dropna_tail_nonneg:
  assumes "\<forall>m\<in>set df. \<forall>v. cell m col = Some v \<longrightarrow> 0 \<le> v"
  shows "\<forall>v\<in>set (dropna (tail n (column df col))). 0 \<le> v"
proof
  fix v assume "v \<in> set (dropna (tail n (column df col)))"
  then have "Some v \<in> set (tail n (column df col))"
    by (simp add: set_dropna)
  then have "Some v \<in> set (column df col)"
    using set_drop_subset [of "length (column df col) - n" "column df col"]
    by (auto simp: tail_def)
  with assms show "0 \<le> v" by (auto simp: column_def)
qed

lemma flood_score_range:
  assumes "\<forall>m\<in>set df. \<forall>v. cell m Precipitation = Some v \<longrightarrow> 0 \<le> v"
  shows "0 \<le> flood_score df \<and> flood_score df \<le> 1"
proof -
  have "0 \<le> series_sum (tail 24 (column df Precipitation))"
    unfolding series_sum_def using dropna_tail_nonneg [OF assms] by (intro sum_list_nonneg) blast
  then have "0 \<le> series_sum (tail 24 (column df Precipitation)) / flood_threshold_precipitation"
    by (simp add: flood_threshold_precipitation_def)
  then show ?thesis
    by (simp add: flood_score_def Let_def min_one_nonneg min_one_le_one)
qed

lemma drought_score_range:
  assumes "\<forall>m\<in>set df. \<forall>v. cell m Precipitation = Some v \<longrightarrow> 0 \<le> v"
  shows "0 \<le> drought_score df \<and> drought_score df \<le> 1"
proof -
  define precip where "precip = min_one (fdiv (series_mean (tail 720 (column df Precipitation)))
                                  drought_threshold_precipitation)"
  define temp where "temp = min_one (Some (max_zero (fsub (series_mean (tail 720 (column df Temperature))) (Some 25))
                                       / (drought_threshold_temperature - 25)))"
  have p1: "precip \<le> 1" unfolding precip_def by (rule min_one_le_one)
  have p0: "0 \<le> precip"
  proof (cases "series_mean (tail 720 (column df Precipitation))")
    case None
    then show ?thesis by (simp add: precip_def fdiv_def min_one_def flt_def)
  next
    case (Some a)
    then have "a = sum_list (dropna (tail 720 (column df Precipitation)))
                   / real (length (dropna (tail 720 (column df Precipitation))))"
      by (simp add: series_mean_def split: if_splits)
    moreover have "0 \<le> sum_list (dropna (tail 720 (column df Precipitation)))"
      using dropna_tail_nonneg [OF assms] by (intro sum_list_nonneg) blast
    ultimately have "0 \<le> a / drought_threshold_precipitation"
      by (simp add: drought_threshold_precipitation_def)
    then show ?thesis
      unfolding precip_def Some fdiv_def by (simp add: min_one_nonneg)
  qed
  have t1: "temp \<le> 1" unfolding temp_def by (rule min_one_le_one)
  have t0: "0 \<le> temp"
    unfolding temp_def
    by (rule min_one_nonneg) (simp add: max_zero_nonneg drought_threshold_temperature_def)
  have "drought_score df = ((1 - precip) + temp) / 2"
    by (simp add: drought_score_def Let_def precip_def temp_def)
  with p0 p1 t0 t1 show ?thesis by simp
qed

text \<open>
  When no precipitation reading is negative, the four scores lie in \<open>[0, 1]\<close>; the storm
  and the extreme-temperature score do so for every batch.
\<close>

lemma risk_scores_range:
  assumes "\<forall>m\<in>set df. \<forall>v. cell m Precipitation = Some v \<longrightarrow> 0 \<le> v"
  shows "0 \<le> flood_risk (assess_risks df) \<and> flood_risk (assess_risks df) \<le> 1
       \<and> 0 \<le> drought_risk (assess_risks df) \<and> drought_risk (assess_risks df) \<le> 1
       \<and> 0 \<le> storm_risk (assess_risks df) \<and> storm_risk (assess_risks df) \<le> 1
       \<and> 0 \<le> extreme_temperature_risk (assess_risks df)
       \<and> extreme_temperature_risk (assess_risks df) \<le> 1"
  using flood_score_range [OF assms] drought_score_range [OF assms]
    storm_score_range [of df] extreme_temperature_score_range [of df]
  by (simp add: assess_risks_def)

text \<open>
  C2 fails on the code. For the single measurement with precipitation -5.0 and
  temperature 35.0 the flood risk is \<open>min(1.0, -5/50) = -0.1\<close>, below 0, and the drought
  risk is \<open>((1 - min(1.0, -5/5)) + 1) / 2 = 1.5\<close>, above 1: the precipitation scores are
  capped at 1 from above only.
\<close>

theorem risk_scores_negative_precipitation:
  "flood_risk (assess_risks
      [\<lparr>m_location = Some ''Houston, US'', m_timestamp = None,
         m_readings = [Precipitation \<mapsto> Some (- 5), Temperature \<mapsto> Some 35]\<rparr>]) = - (1 / 10)
   \<and> drought_risk (assess_risks
      [\<lparr>m_location = Some ''Houston, US'', m_timestamp = None,
         m_readings = [Precipitation \<mapsto> Some (- 5), Temperature \<mapsto> Some 35]\<rparr>]) = 3 / 2"
  by (simp add: assess_risks_def has_column_def flood_score_def drought_score_def column_def cell_def
        tail_def series_sum_def series_mean_def min_one_def max_zero_def flt_def fgt_def fdiv_def fsub_def
        get_default_def flood_threshold_precipitation_def drought_threshold_precipitation_def
        drought_threshold_temperature_def)

section \<open>A batch without temperatures\<close>









section \<open>Anomalies and the interquartile range\<close>




















end
